theory Spec2Isabelle
  imports Main
begin

section \<open>Shell scripts as state-passing functions\<close>

text \<open>
  The deployment hooks of the repository are straight-line bash scripts. Each script is
  embedded as a list of steps over an explicit shell state. An external command is a
  function from the state to its exit status and the new state; what the outside world
  answers (the exit status of \<open>docker\<close>, \<open>aws\<close>, \<open>curl\<close>, the text they print) is
  read from an environment record with one field per call site, so a theorem quantified
  over the environment covers every outcome of the underlying calls.

  The builtins \<open>echo\<close> and \<open>sleep\<close>, and the last stage of a pipeline when it is
  \<open>head\<close>, \<open>tail\<close> or \<open>wc\<close>, are taken to return 0. The check marks and emoji at the
  head of some messages are left out of the echoed strings.
\<close>

datatype cmd =
    CommandVDocker | YumUpdate | YumInstallDocker | SystemctlStartDocker
  | SystemctlEnableDocker | UsermodDocker | CommandVAws | CurlAwsCli | UnzipAwsCli
  | InstallAwsCli
  | DockerStop | DockerRm | EcrLogin | DockerPull string | DockerRun string | Sleep nat
  | DockerPsGrep | DockerPsAllGrep | DockerLogs | DockerInspect
  | CurlHttpCode | CurlContent | CurlHead | DockerLogsScan | DockerLogsTail
  | CurlTime | CurlFinal
  | CurlRegion | StsCallerIdentity | EcrDescribeRepositories

text \<open>\<open>DockerPull\<close> and \<open>DockerRun\<close> carry the image reference on the command line.\<close>

datatype event = Echo string | Cmd cmd nat

text \<open>
  The shell state: whether the container runtime holds a container named
  \<open>ecommerce-app\<close>, and everything the script has printed or invoked so far.
\<close>

record shell =
  present :: bool
  events :: "event list"

datatype result = Exit nat shell | Next shell

type_synonym command = "shell \<Rightarrow> nat \<times> shell"
type_synonym step = "shell \<Rightarrow> result"

definition call :: "cmd \<Rightarrow> nat \<Rightarrow> command" where
  "call c rc s = (rc, s\<lparr>events := events s @ [Cmd c rc]\<rparr>)"

definition echo :: "string \<Rightarrow> command" where
  "echo m s = (0, s\<lparr>events := events s @ [Echo m]\<rparr>)"

definition sleep :: "nat \<Rightarrow> command" where
  "sleep n = call (Sleep n) 0"

text \<open>\<open>c || d\<close>: \<open>d\<close> runs only when \<open>c\<close> returns nonzero; the status is that of the last command run.\<close>

definition or_else :: "command \<Rightarrow> command \<Rightarrow> command" where
  "or_else c d s = (case c s of (rc, s') \<Rightarrow> if rc = 0 then (0, s') else d s')"

text \<open>The command \<open>true\<close>.\<close>

definition true_cmd :: command where
  "true_cmd s = (0, s)"

text \<open>
  A simple command as a step. Under \<open>set -e\<close> a nonzero status ends the script with
  that status; without it the status is dropped and the script goes on.
\<close>

definition errexit :: "command \<Rightarrow> step" where
  "errexit c s = (case c s of (rc, s') \<Rightarrow> if rc = 0 then Next s' else Exit rc s')"

definition ignore :: "command \<Rightarrow> step" where
  "ignore c s = Next (snd (c s))"

definition exit_with :: "nat \<Rightarrow> step" where
  "exit_with n s = Exit n s"

fun steps :: "step list \<Rightarrow> step" where
  "steps [] s = Next s"
| "steps (f # fs) s = (case f s of Exit n s' \<Rightarrow> Exit n s' | Next s' \<Rightarrow> steps fs s')"

text \<open>\<open>if c; then ...; else ...; fi\<close>: the condition's status is tested, never subject to \<open>set -e\<close>.\<close>

definition if_then_else :: "command \<Rightarrow> step list \<Rightarrow> step list \<Rightarrow> step" where
  "if_then_else c t f s = (case c s of (rc, s') \<Rightarrow> if rc = 0 then steps t s' else steps f s')"

text \<open>\<open>if [ test ]; then ...; else ...; fi\<close> on shell variables.\<close>

definition if_test :: "bool \<Rightarrow> step list \<Rightarrow> step list \<Rightarrow> step" where
  "if_test b t f s = (if b then steps t s else steps f s)"

text \<open>
  A script that runs off its end exits with the status of its last command; in every
  script of the repository that command is an \<open>echo\<close>.
\<close>

definition script :: "step list \<Rightarrow> command" where
  "script body s = (case steps body s of Exit n s' \<Rightarrow> (n, s') | Next s' \<Rightarrow> (0, s'))"

text \<open>What a run of steps left behind: the exit status, if it exited, and the state.\<close>

fun status_of :: "result \<Rightarrow> nat option" where
  "status_of (Exit n s) = Some n"
| "status_of (Next s) = None"

fun state_of :: "result \<Rightarrow> shell" where
  "state_of (Exit n s) = s"
| "state_of (Next s) = s"

subsection \<open>The container runtime\<close>

text \<open>
  The Docker CLI is outside the repository. Its answers come from the environment,
  except for what follows from the name \<open>ecommerce-app\<close> being unique in the runtime:
  \<open>docker stop\<close> and \<open>docker rm\<close> fail (status 1) when no container of that name
  exists, \<open>docker rm\<close> that succeeds leaves none, \<open>docker run --name\<close> fails with
  status 125 when one exists already, and a \<open>docker run\<close> that succeeds leaves one.
  A \<open>docker run\<close> that fails may still have created the container (\<open>created\<close>).
\<close>

definition docker_stop :: "nat \<Rightarrow> command" where
  "docker_stop rc s = (if present s then call DockerStop rc s else call DockerStop 1 s)"

definition docker_rm :: "nat \<Rightarrow> command" where
  "docker_rm rc s =
     (if present s then call DockerRm rc (if rc = 0 then s\<lparr>present := False\<rparr> else s)
      else call DockerRm 1 s)"

definition docker_run :: "string \<Rightarrow> nat \<Rightarrow> bool \<Rightarrow> command" where
  "docker_run img rc created s =
     (if present s then call (DockerRun img) 125 s
      else call (DockerRun img) rc (s\<lparr>present := (rc = 0 \<or> created)\<rparr>))"


text \<open>\<open>! c\<close>: the status is inverted.\<close>

definition negate :: "command \<Rightarrow> command" where
  "negate c s = (case c s of (rc, s') \<Rightarrow> (if rc = 0 then 1 else 0, s'))"

subsection \<open>Text tools\<close>

definition newline :: char where
  "newline = CHR 0x0A"

text \<open>\<open>$(...)\<close> drops the trailing newlines of what the command printed.\<close>

definition command_subst :: "string \<Rightarrow> string" where
  "command_subst out = rev (dropWhile (\<lambda>c. c = newline) (rev out))"

fun lines_of :: "string \<Rightarrow> string list" where
  "lines_of [] = []"
| "lines_of (c # cs) =
     (if c = newline then [] # lines_of cs
      else (case lines_of cs of [] \<Rightarrow> [[c]] | l # ls \<Rightarrow> (c # l) # ls))"

definition to_lower :: "char \<Rightarrow> char" where
  "to_lower c = (let n = (of_char c :: nat) in if 65 \<le> n \<and> n \<le> 90 then char_of (n + 32) else c)"

fun starts_with :: "string \<Rightarrow> string \<Rightarrow> bool" where
  "starts_with [] txt = True"
| "starts_with (p # ps) [] = False"
| "starts_with (p # ps) (c # cs) = (p = c \<and> starts_with ps cs)"

fun contains :: "string \<Rightarrow> string \<Rightarrow> bool" where
  "contains pat [] = (pat = [])"
| "contains pat (c # cs) = (starts_with pat (c # cs) \<or> contains pat cs)"

text \<open>\<open>grep -i "p1\|p2\|..."\<close>: the lines holding one of the patterns, letter case ignored.\<close>

definition matches_i :: "string list \<Rightarrow> string \<Rightarrow> bool" where
  "matches_i pats l = list_ex (\<lambda>p. contains (map to_lower p) (map to_lower l)) pats"

definition grep_i :: "string list \<Rightarrow> string \<Rightarrow> string list" where
  "grep_i pats txt = filter (matches_i pats) (lines_of txt)"

text \<open>\<open>head -1\<close> inside \<open>$(...)\<close>: the first line, or nothing.\<close>

definition head_1 :: "string list \<Rightarrow> string" where
  "head_1 ls = (case ls of [] \<Rightarrow> [] | l # _ \<Rightarrow> l)"

fun show_nat :: "nat \<Rightarrow> string" where
  "show_nat n =
     (if n < 10 then [char_of (48 + n)]
      else show_nat (n div 10) @ [char_of (48 + n mod 10)])"

section \<open>application_stop\<close>

text \<open>
  \<^verbatim>\<open>
  set -e
  echo "Starting application_stop phase..."
  # Stop Docker container
  echo "Stopping Docker container..."
  sudo docker stop ecommerce-app 2>/dev/null || echo "Container was not running"
  # Remove Docker container
  echo "Removing Docker container..."
  sudo docker rm ecommerce-app 2>/dev/null || echo "Container was already removed"
  echo "Application stop phase completed successfully"
  \<close>
\<close>

record stop_env =
  as_stop :: nat
  as_rm :: nat

definition application_stop :: "stop_env \<Rightarrow> command" where
  "application_stop e = script
    [ errexit (echo ''Starting application_stop phase...''),
      errexit (echo ''Stopping Docker container...''),
      errexit (or_else (docker_stop (as_stop e)) (echo ''Container was not running'')),
      errexit (echo ''Removing Docker container...''),
      errexit (or_else (docker_rm (as_rm e)) (echo ''Container was already removed'')),
      errexit (echo ''Application stop phase completed successfully'') ]"

section \<open>Blocks the scripts share\<close>

text \<open>
  \<^verbatim>\<open>
  # Stop and remove existing container
  echo "Cleaning up existing containers..."
  sudo docker stop ecommerce-app 2>/dev/null || true
  sudo docker rm ecommerce-app 2>/dev/null || true
  \<close>
  The block stands in before_install and in the hardcoded application_start, both
  without \<open>set -e\<close>.
\<close>

definition cleanup_existing_containers :: "nat \<Rightarrow> nat \<Rightarrow> step list" where
  "cleanup_existing_containers stop_rc rm_rc =
    [ ignore (echo ''Cleaning up existing containers...''),
      ignore (or_else (docker_stop stop_rc) true_cmd),
      ignore (or_else (docker_rm rm_rc) true_cmd) ]"

text \<open>
  The two application_start scripts share the blocks below word for word; one runs them
  under \<open>set -e\<close> (\<open>sh = errexit\<close>), the other without (\<open>sh = ignore\<close>). The
  image reference both pull and run is put together from four shell variables.
  \<^verbatim>\<open>
  # Login to ECR
  echo "Logging in to ECR..."
  aws ecr get-login-password --region $AWS_REGION | sudo docker login --username AWS \
      --password-stdin $AWS_ACCOUNT_ID.dkr.ecr.$AWS_REGION.amazonaws.com
  \<close>
  The status of the pipeline is that of \<open>docker login\<close>.
\<close>

definition image_reference :: "string \<Rightarrow> string \<Rightarrow> string \<Rightarrow> string \<Rightarrow> string" where
  "image_reference account region repo tag =
     account @ ''.dkr.ecr.'' @ region @ ''.amazonaws.com/'' @ repo @ '':'' @ tag"

definition login_to_ecr :: "(command \<Rightarrow> step) \<Rightarrow> nat \<Rightarrow> step list" where
  "login_to_ecr sh login_rc =
    [ sh (echo ''Logging in to ECR...''),
      sh (call EcrLogin login_rc) ]"

text \<open>
  \<^verbatim>\<open>
  # Pull the latest image from ECR
  echo "Pulling Docker image from ECR..."
  sudo docker pull $AWS_ACCOUNT_ID.dkr.ecr.$AWS_REGION.amazonaws.com/$IMAGE_REPO_NAME:$IMAGE_TAG
  \<close>
\<close>

definition pull_image :: "(command \<Rightarrow> step) \<Rightarrow> string \<Rightarrow> nat \<Rightarrow> step list" where
  "pull_image sh img pull_rc =
    [ sh (echo ''Pulling Docker image from ECR...''),
      sh (call (DockerPull img) pull_rc) ]"

text \<open>
  \<^verbatim>\<open>
  # Run the container
  echo "Starting Docker container..."
  sudo docker run -d \
    --name ecommerce-app \
    -p 80:80 \
    --restart unless-stopped \
    $AWS_ACCOUNT_ID.dkr.ecr.$AWS_REGION.amazonaws.com/$IMAGE_REPO_NAME:$IMAGE_TAG
  \<close>
\<close>

definition run_container ::
  "(command \<Rightarrow> step) \<Rightarrow> string \<Rightarrow> nat \<Rightarrow> bool \<Rightarrow> step list" where
  "run_container sh img run_rc created =
    [ sh (echo ''Starting Docker container...''),
      sh (docker_run img run_rc created) ]"

text \<open>
  \<^verbatim>\<open>
  # Wait for container to be ready
  echo "Waiting for container to start..."
  sleep 10
  # Verify container is running
  if sudo docker ps | grep -q ecommerce-app; then
      echo "Container started successfully"
  else
      echo "Container failed to start"
      sudo docker logs ecommerce-app
      exit 1
  fi
  \<close>
\<close>

definition verify_container_running :: "(command \<Rightarrow> step) \<Rightarrow> nat \<Rightarrow> nat \<Rightarrow> step list" where
  "verify_container_running sh ps_rc logs_rc =
    [ sh (echo ''Waiting for container to start...''),
      sh (sleep 10),
      if_then_else (call DockerPsGrep ps_rc)
        [ sh (echo ''Container started successfully'') ]
        [ sh (echo ''Container failed to start''),
          sh (call DockerLogs logs_rc),
          exit_with 1 ] ]"

section \<open>before_install\<close>

text \<open>
  The script has no \<open>set -e\<close>.
  \<^verbatim>\<open>
  echo "Starting before_install phase..."
  # Install Docker if not already installed
  if ! command -v docker &> /dev/null; then
      echo "Installing Docker..."
      sudo yum update -y
      sudo yum install -y docker
      sudo systemctl start docker
      sudo systemctl enable docker
      sudo usermod -a -G docker ec2-user
  else
      echo "Docker is already installed"
      sudo systemctl start docker
  fi
  # Install AWS CLI if not already installed
  if ! command -v aws &> /dev/null; then
      echo "Installing AWS CLI..."
      curl "https://awscli.amazonaws.com/awscli-exe-linux-x86_64.zip" -o "awscliv2.zip"
      unzip awscliv2.zip
      sudo ./aws/install
  fi
  # Stop and remove existing container
  (the cleanup block)
  echo "Before install phase completed successfully"
  \<close>
\<close>

record install_env =
  bi_command_v_docker :: nat
  bi_yum_update :: nat
  bi_yum_install :: nat
  bi_systemctl_start_new :: nat
  bi_systemctl_enable :: nat
  bi_usermod :: nat
  bi_systemctl_start :: nat
  bi_command_v_aws :: nat
  bi_curl_awscli :: nat
  bi_unzip :: nat
  bi_aws_install :: nat
  bi_stop :: nat
  bi_rm :: nat

definition install_docker :: "install_env \<Rightarrow> step list" where
  "install_docker e =
    [ if_then_else (negate (call CommandVDocker (bi_command_v_docker e)))
        [ ignore (echo ''Installing Docker...''),
          ignore (call YumUpdate (bi_yum_update e)),
          ignore (call YumInstallDocker (bi_yum_install e)),
          ignore (call SystemctlStartDocker (bi_systemctl_start_new e)),
          ignore (call SystemctlEnableDocker (bi_systemctl_enable e)),
          ignore (call UsermodDocker (bi_usermod e)) ]
        [ ignore (echo ''Docker is already installed''),
          ignore (call SystemctlStartDocker (bi_systemctl_start e)) ] ]"

definition install_aws_cli :: "install_env \<Rightarrow> step list" where
  "install_aws_cli e =
    [ if_then_else (negate (call CommandVAws (bi_command_v_aws e)))
        [ ignore (echo ''Installing AWS CLI...''),
          ignore (call CurlAwsCli (bi_curl_awscli e)),
          ignore (call UnzipAwsCli (bi_unzip e)),
          ignore (call InstallAwsCli (bi_aws_install e)) ]
        [] ]"

definition before_install :: "install_env \<Rightarrow> command" where
  "before_install e = script
    ( [ ignore (echo ''Starting before_install phase...'') ]
      @ install_docker e
      @ install_aws_cli e
      @ cleanup_existing_containers (bi_stop e) (bi_rm e)
      @ [ ignore (echo ''Before install phase completed successfully'') ] )"

section \<open>application_start\<close>

text \<open>
  The variant with hardcoded region and account. It has no \<open>set -e\<close>.
  \<^verbatim>\<open>
  echo "Starting application_start phase..."
  # Hardcoded values to avoid AWS CLI issues
  AWS_REGION="us-east-1"
  AWS_ACCOUNT_ID="142595748980"
  IMAGE_REPO_NAME="ecommerce-app"
  IMAGE_TAG="latest"
  echo "Using AWS Region: $AWS_REGION"
  echo "Using AWS Account ID: $AWS_ACCOUNT_ID"
  # Stop and remove existing container
  (the cleanup block)
  (login, pull, run, wait and verify)
  echo "Application start phase completed successfully"
  \<close>
\<close>

text \<open>
  The image reference of this script is fixed by the four assignments at its head:
  \<open>142595748980.dkr.ecr.us-east-1.amazonaws.com/ecommerce-app:latest\<close>. The script
  reads no argument and no other variable.
\<close>

definition hardcoded_image :: string where
  "hardcoded_image = image_reference ''142595748980'' ''us-east-1'' ''ecommerce-app'' ''latest''"

record start_env =
  st_stop :: nat
  st_rm :: nat
  st_login :: nat
  st_pull :: nat
  st_run :: nat
  st_run_created :: bool
  st_ps_grep :: nat
  st_logs :: nat

definition application_start :: "start_env \<Rightarrow> command" where
  "application_start e = script
    ( [ ignore (echo ''Starting application_start phase...''),
        ignore (echo ''Using AWS Region: us-east-1''),
        ignore (echo ''Using AWS Account ID: 142595748980'') ]
      @ cleanup_existing_containers (st_stop e) (st_rm e)
      @ login_to_ecr ignore (st_login e)
      @ pull_image ignore hardcoded_image (st_pull e)
      @ run_container ignore hardcoded_image (st_run e) (st_run_created e)
      @ verify_container_running ignore (st_ps_grep e) (st_logs e)
      @ [ ignore (echo ''Application start phase completed successfully'') ] )"

text \<open>
  The variant that asks AWS for region and account and checks the ECR repository.
  It runs under \<open>set -e\<close>, and its pull and run blocks appear twice.
  \<^verbatim>\<open>
  set -e  # Exit on any error
  echo "Starting application_start phase..."
  # Get AWS region and account ID with better error handling
  AWS_REGION=$(curl -s http://169.254.169.254/latest/meta-data/placement/region || echo "us-east-1")
  AWS_ACCOUNT_ID=$(aws sts get-caller-identity --query Account --output text --region $AWS_REGION)
  echo "Using AWS Region: $AWS_REGION"
  echo "Using AWS Account ID: $AWS_ACCOUNT_ID"
  IMAGE_REPO_NAME="ecommerce-app"
  IMAGE_TAG="latest"
  # Check if ECR repository exists
  echo "Checking ECR repository..."
  if ! aws ecr describe-repositories --repository-names $IMAGE_REPO_NAME \
         --region $AWS_REGION >/dev/null 2>&1; then
      echo "ECR repository $IMAGE_REPO_NAME does not exist"
      exit 1
  fi
  (login, pull, run, pull, run, wait and verify)
  echo "Application start phase completed successfully"
  \<close>
  The \<open>echo "us-east-1"\<close> inside the substitution goes into the variable, not to
  the output; like \<open>true\<close> it only makes the assignment succeed.
\<close>

record ecr_env =
  ec_region :: nat
  ec_region_out :: string
  ec_sts :: nat
  ec_account_out :: string
  ec_describe :: nat
  ec_login :: nat
  ec_pull1 :: nat
  ec_run1 :: nat
  ec_run1_created :: bool
  ec_pull2 :: nat
  ec_run2 :: nat
  ec_run2_created :: bool
  ec_ps_grep :: nat
  ec_logs :: nat

definition AWS_REGION :: "ecr_env \<Rightarrow> string" where
  "AWS_REGION e = command_subst
     (if ec_region e = 0 then ec_region_out e
      else ec_region_out e @ ''us-east-1'' @ [newline])"

definition AWS_ACCOUNT_ID :: "ecr_env \<Rightarrow> string" where
  "AWS_ACCOUNT_ID e = command_subst (ec_account_out e)"

definition ecr_image :: "ecr_env \<Rightarrow> string" where
  "ecr_image e = image_reference (AWS_ACCOUNT_ID e) (AWS_REGION e) ''ecommerce-app'' ''latest''"

definition get_region_and_account :: "ecr_env \<Rightarrow> step list" where
  "get_region_and_account e =
    [ errexit (or_else (call CurlRegion (ec_region e)) true_cmd),
      errexit (call StsCallerIdentity (ec_sts e)),
      errexit (echo (''Using AWS Region: '' @ AWS_REGION e)),
      errexit (echo (''Using AWS Account ID: '' @ AWS_ACCOUNT_ID e)) ]"

definition check_ecr_repository :: "ecr_env \<Rightarrow> step list" where
  "check_ecr_repository e =
    [ errexit (echo ''Checking ECR repository...''),
      if_then_else (negate (call EcrDescribeRepositories (ec_describe e)))
        [ errexit (echo ''ECR repository ecommerce-app does not exist''),
          exit_with 1 ]
        [] ]"

definition application_start_ecr :: "ecr_env \<Rightarrow> command" where
  "application_start_ecr e = script
    ( [ errexit (echo ''Starting application_start phase...'') ]
      @ get_region_and_account e
      @ check_ecr_repository e
      @ login_to_ecr errexit (ec_login e)
      @ pull_image errexit (ecr_image e) (ec_pull1 e)
      @ run_container errexit (ecr_image e) (ec_run1 e) (ec_run1_created e)
      @ pull_image errexit (ecr_image e) (ec_pull2 e)
      @ run_container errexit (ecr_image e) (ec_run2 e) (ec_run2_created e)
      @ verify_container_running errexit (ec_ps_grep e) (ec_logs e)
      @ [ errexit (echo ''Application start phase completed successfully'') ] )"

section \<open>validate_service\<close>

text \<open>
  The script runs under \<open>set -e\<close>. The environment gives, for each call site, the
  status of the command and, where the script reads it, the text it printed:
  \<open>vs_status_out\<close> is what \<open>docker inspect\<close> printed, \<open>vs_http_out\<close> what the first
  \<open>curl\<close> wrote for \<open>%{http_code}\<close>, \<open>vs_body\<close> the page the content probe
  received, \<open>vs_logs_out\<close> the container's log, \<open>vs_time_out\<close> what the timing
  probe wrote for \<open>%{time_total}\<close>.
\<close>

record validate_env =
  vs_ps_grep :: nat
  vs_ps_all_grep :: nat
  vs_inspect :: nat
  vs_status_out :: string
  vs_logs_health :: nat
  vs_http :: nat
  vs_http_out :: string
  vs_logs_http :: nat
  vs_body :: string
  vs_logs_out :: string
  vs_time :: nat
  vs_time_out :: string
  vs_final :: nat

text \<open>
  \<^verbatim>\<open>
  # Check if Docker container is running
  echo "Checking Docker container status..."
  if sudo docker ps | grep -q ecommerce-app; then
      echo "Docker container is running"
  else
      echo "Docker container is not running"
      sudo docker ps -a | grep ecommerce-app || echo "Container not found"
      exit 1
  fi
  \<close>
\<close>

definition check_container_running :: "validate_env \<Rightarrow> step list" where
  "check_container_running e =
    [ errexit (echo ''Checking Docker container status...''),
      if_then_else (call DockerPsGrep (vs_ps_grep e))
        [ errexit (echo ''Docker container is running'') ]
        [ errexit (echo ''Docker container is not running''),
          errexit (or_else (call DockerPsAllGrep (vs_ps_all_grep e))
                           (echo ''Container not found'')),
          exit_with 1 ] ]"

text \<open>
  \<^verbatim>\<open>
  # Check container health
  echo "Checking container health..."
  CONTAINER_STATUS=$(sudo docker inspect --format='{{.State.Status}}' ecommerce-app)
  if [ "$CONTAINER_STATUS" = "running" ]; then
      echo "Container status: $CONTAINER_STATUS"
  else
      echo "Container status: $CONTAINER_STATUS"
      sudo docker logs ecommerce-app
      exit 1
  fi
  \<close>
\<close>

definition CONTAINER_STATUS :: "validate_env \<Rightarrow> string" where
  "CONTAINER_STATUS e = command_subst (vs_status_out e)"

definition check_container_health :: "validate_env \<Rightarrow> step list" where
  "check_container_health e =
    [ errexit (echo ''Checking container health...''),
      errexit (call DockerInspect (vs_inspect e)),
      if_test (CONTAINER_STATUS e = ''running'')
        [ errexit (echo (''Container status: '' @ CONTAINER_STATUS e)) ]
        [ errexit (echo (''Container status: '' @ CONTAINER_STATUS e)),
          errexit (call DockerLogs (vs_logs_health e)),
          exit_with 1 ] ]"

text \<open>
  \<^verbatim>\<open>
  # Test HTTP response
  echo "Testing HTTP response..."
  HTTP_CODE=$(curl -s -o /dev/null -w "%{http_code}" http://localhost/ || echo "000")
  if [ "$HTTP_CODE" = "200" ]; then
      echo "HTTP response: $HTTP_CODE"
  else
      echo "HTTP response: $HTTP_CODE"
      sudo docker logs ecommerce-app
      exit 1
  fi
  \<close>
  When \<open>curl\<close> fails, the \<open>echo\<close> inside the substitution adds its \<open>000\<close> to
  what \<open>curl\<close> wrote.
\<close>

definition HTTP_CODE :: "validate_env \<Rightarrow> string" where
  "HTTP_CODE e = command_subst
     (if vs_http e = 0 then vs_http_out e else vs_http_out e @ ''000'' @ [newline])"

definition test_http_response :: "validate_env \<Rightarrow> step list" where
  "test_http_response e =
    [ errexit (echo ''Testing HTTP response...''),
      errexit (or_else (call CurlHttpCode (vs_http e)) true_cmd),
      if_test (HTTP_CODE e = ''200'')
        [ errexit (echo (''HTTP response: '' @ HTTP_CODE e)) ]
        [ errexit (echo (''HTTP response: '' @ HTTP_CODE e)),
          errexit (call DockerLogs (vs_logs_http e)),
          exit_with 1 ] ]"

text \<open>
  \<^verbatim>\<open>
  # Test application content
  echo "Testing application content..."
  RESPONSE=$(curl -s http://localhost/ | grep -i "ecommerce\|shop\|product" | head -1)
  if [ -n "$RESPONSE" ]; then
      echo "Application content validated"
  else
      echo "Application content validation failed"
      curl -s http://localhost/ | head -10
      exit 1
  fi
  \<close>
  The status of either pipeline is that of \<open>head\<close>.
\<close>

definition content_markers :: "string list" where
  "content_markers = [''ecommerce'', ''shop'', ''product'']"

definition RESPONSE :: "validate_env \<Rightarrow> string" where
  "RESPONSE e = command_subst (head_1 (grep_i content_markers (vs_body e)))"

definition test_application_content :: "validate_env \<Rightarrow> step list" where
  "test_application_content e =
    [ errexit (echo ''Testing application content...''),
      errexit (call CurlContent 0),
      if_test (RESPONSE e \<noteq> [])
        [ errexit (echo ''Application content validated'') ]
        [ errexit (echo ''Application content validation failed''),
          errexit (call CurlHead 0),
          exit_with 1 ] ]"

text \<open>
  \<^verbatim>\<open>
  # Check Docker logs for errors
  echo "Checking Docker logs for errors..."
  ERROR_COUNT=$(sudo docker logs ecommerce-app 2>&1 | grep -i "error\|fail\|exception" | wc -l)
  if [ "$ERROR_COUNT" -eq 0 ]; then
      echo "No errors found in container logs"
  else
      echo "Found $ERROR_COUNT potential errors in logs"
      sudo docker logs ecommerce-app 2>&1 | grep -i "error\|fail\|exception" | tail -5
  fi
  \<close>
  The status of the first pipeline is that of \<open>wc\<close>, of the second that of \<open>tail\<close>.
\<close>

definition error_markers :: "string list" where
  "error_markers = [''error'', ''fail'', ''exception'']"

definition ERROR_COUNT :: "validate_env \<Rightarrow> nat" where
  "ERROR_COUNT e = length (grep_i error_markers (vs_logs_out e))"

definition check_logs_for_errors :: "validate_env \<Rightarrow> step list" where
  "check_logs_for_errors e =
    [ errexit (echo ''Checking Docker logs for errors...''),
      errexit (call DockerLogsScan 0),
      if_test (ERROR_COUNT e = 0)
        [ errexit (echo ''No errors found in container logs'') ]
        [ errexit (echo (''Found '' @ show_nat (ERROR_COUNT e) @ '' potential errors in logs'')),
          errexit (call DockerLogsTail 0) ] ]"

text \<open>
  \<^verbatim>\<open>
  # Performance check
  echo "Running performance check..."
  RESPONSE_TIME=$(curl -s -w "%{time_total}" -o /dev/null http://localhost/)
  echo "Response time: ${RESPONSE_TIME}s"
  \<close>
\<close>

definition RESPONSE_TIME :: "validate_env \<Rightarrow> string" where
  "RESPONSE_TIME e = command_subst (vs_time_out e)"

definition performance_check :: "validate_env \<Rightarrow> step list" where
  "performance_check e =
    [ errexit (echo ''Running performance check...''),
      errexit (call CurlTime (vs_time e)),
      errexit (echo (''Response time: '' @ RESPONSE_TIME e @ ''s'')) ]"

text \<open>
  \<^verbatim>\<open>
  # Final validation
  echo "Running final validation..."
  if curl -f -s http://localhost/ > /dev/null; then
      echo "Final validation passed"
      echo "Application deployment validated successfully!"
  else
      echo "Final validation failed"
      exit 1
  fi
  \<close>
\<close>

definition final_validation :: "validate_env \<Rightarrow> step list" where
  "final_validation e =
    [ errexit (echo ''Running final validation...''),
      if_then_else (call CurlFinal (vs_final e))
        [ errexit (echo ''Final validation passed''),
          errexit (echo ''Application deployment validated successfully!'') ]
        [ errexit (echo ''Final validation failed''),
          exit_with 1 ] ]"

text \<open>
  \<^verbatim>\<open>
  set -e
  echo "Starting validate_service phase..."
  # Wait for application to be fully ready
  echo "Waiting for application to be ready..."
  sleep 15
  (the seven blocks above, in this order)
  echo "Validate service phase completed successfully"
  \<close>
\<close>

definition validate_service :: "validate_env \<Rightarrow> command" where
  "validate_service e = script
    ( [ errexit (echo ''Starting validate_service phase...''),
        errexit (echo ''Waiting for application to be ready...''),
        errexit (sleep 15) ]
      @ check_container_running e
      @ check_container_health e
      @ test_http_response e
      @ test_application_content e
      @ check_logs_for_errors e
      @ performance_check e
      @ final_validation e
      @ [ errexit (echo ''Validate service phase completed successfully'') ] )"

section \<open>The Lifecycle Coordinator\<close>

text \<open>
  The repository holds the scripts of the phases, not the coordinator that runs them:
  the sequencing is left to the deployment service and to \<open>appspec.yml\<close>, neither of
  which is among the sources. The coordinator below is the one the specification
  describes, running the scripts above as its phases.
\<close>

text \<open>
  Modelled from the spec: the phases of an attempt, named after the hook scripts that
  carry them out. \<open>ApplicationStart\<close> covers the phases Installing (login and pull) and
  Starting (run, wait, verify) of the transition table, since one script does both.
\<close>

datatype hook = BeforeInstall | ApplicationStop | ApplicationStart | ValidateService

text \<open>
  Modelled from the spec: the terminal outcome of a DeploymentAttempt, "Success | Failed
  | RolledBack"; \<open>Failed\<close> carries the phase that failed, as the outcome log does.
\<close>

datatype outcome = Succeeded | Failed hook | RolledBack

text \<open>What the runtime and the service answer while the scripts run once each.\<close>

record env =
  install :: install_env
  stop :: stop_env
  start :: start_env
  validate :: validate_env

text \<open>
  Modelled from the spec: the DeploymentAttempt, reduced to its ordered phase log, its
  terminal outcome, and the state of the host at the end.
\<close>

record attempt =
  ran :: "hook list"
  terminal :: outcome
  final :: shell

text \<open>
  Modelled from the spec: what each phase does, which \<open>appspec.yml\<close> fixes by binding a
  script to it. The ApplicationStart phase is the hardcoded application_start; the
  ECR-checking one is studied on its own.
\<close>

fun run_hook :: "env \<Rightarrow> hook \<Rightarrow> command" where
  "run_hook e BeforeInstall = before_install (install e)"
| "run_hook e ApplicationStop = application_stop (stop e)"
| "run_hook e ApplicationStart = application_start (start e)"
| "run_hook e ValidateService = validate_service (validate e)"

text \<open>
  Modelled from the spec: one pass over a list of phases. "Phases execute in a single
  fixed total order"; a phase that exits nonzero fails, ends the pass at that phase, and
  no later phase runs.
\<close>

fun run_hooks :: "env \<Rightarrow> hook list \<Rightarrow> shell \<Rightarrow> attempt" where
  "run_hooks e [] s = \<lparr>ran = [], terminal = Succeeded, final = s\<rparr>"
| "run_hooks e (h # hs) s =
     (case run_hook e h s of (rc, s') \<Rightarrow>
        if rc = 0 then (let a = run_hooks e hs s' in a\<lparr>ran := h # ran a\<rparr>)
        else \<lparr>ran = [h], terminal = Failed h, final = s'\<rparr>)"

text \<open>
  Modelled from the spec: the fixed sequence of the first pass, "BeforeInstall \<rightarrow>
  Stopping \<rightarrow> Installing \<rightarrow> Starting \<rightarrow> Validating", that is the hook sequence
  \<open>before_install \<rightarrow> application_stop \<rightarrow> application_start \<rightarrow> validate_service\<close>.
\<close>

definition appspec_hooks :: "hook list" where
  "appspec_hooks = [BeforeInstall, ApplicationStop, ApplicationStart, ValidateService]"

text \<open>
  Modelled from the spec: the rollback path, "re-enter Stopping \<rightarrow> Installing \<rightarrow>
  Starting \<rightarrow> Validating".
\<close>

definition rollback_hooks :: "hook list" where
  "rollback_hooks = [ApplicationStop, ApplicationStart, ValidateService]"

text \<open>
  Modelled from the spec: the operation \<open>deploy\<close> of the Lifecycle Coordinator, after
  its transition table. The first pass runs the fixed sequence in the environment \<open>e\<close>.
  When it completes the attempt is Succeeded. A failure of BeforeInstall, Stopping or
  Installing ends the attempt Failed. A failure of Starting or Validating "attempts
  rollback if previous-artifact-reference is known, else Failed": the rollback path is
  entered "at most once", in the environment \<open>r\<close> of that second pass, and ends
  RolledBack on success and Failed on failure; "no second rollback is attempted".
  The hardcoded application_start exits nonzero only from the check of its Starting
  part, so a failure of the ApplicationStart phase is a failure of Starting.
  Timeouts, abort, the exclusion of concurrent attempts on one target and the retry
  budget of Stopping are left out.
\<close>

definition deploy :: "env \<Rightarrow> env \<Rightarrow> string option \<Rightarrow> shell \<Rightarrow> attempt" where
  "deploy e r previous s =
     (let first_pass = run_hooks e appspec_hooks s
      in if (terminal first_pass = Failed ApplicationStart
             \<or> terminal first_pass = Failed ValidateService) \<and> previous \<noteq> None
         then (let second_pass = run_hooks r rollback_hooks (final first_pass)
               in \<lparr>ran = ran first_pass @ ran second_pass,
                   terminal = (if terminal second_pass = Succeeded then RolledBack
                               else terminal second_pass),
                   final = final second_pass\<rparr>)
         else first_pass)"

section \<open>Reading the record of a run\<close>

text \<open>
  The container operations among the recorded events, in the order they ran: stop,
  remove, pull, run, and the \<open>docker ps | grep -q ecommerce-app\<close> check.
\<close>

fun is_container_op :: "cmd \<Rightarrow> bool" where
  "is_container_op DockerStop = True"
| "is_container_op DockerRm = True"
| "is_container_op (DockerPull img) = True"
| "is_container_op (DockerRun img) = True"
| "is_container_op DockerPsGrep = True"
| "is_container_op c = False"

fun docker_op :: "event \<Rightarrow> cmd list" where
  "docker_op (Echo m) = []"
| "docker_op (Cmd c rc) = (if is_container_op c then [c] else [])"

definition docker_ops :: "event list \<Rightarrow> cmd list" where
  "docker_ops es = concat (map docker_op es)"

section \<open>Concrete hosts and environments\<close>

text \<open>A host with no container, and one where a previous deployment left \<open>ecommerce-app\<close>.\<close>

definition fresh_host :: shell where
  "fresh_host = \<lparr>present = False, events = []\<rparr>"

definition host_with_container :: shell where
  "host_with_container = \<lparr>present = True, events = []\<rparr>"

text \<open>Every command succeeds, and the service answers 200 with the page \<open>ecommerce ok\<close>.\<close>

definition healthy_env :: env where
  "healthy_env =
    \<lparr>install = \<lparr>bi_command_v_docker = 0, bi_yum_update = 0, bi_yum_install = 0,
         bi_systemctl_start_new = 0, bi_systemctl_enable = 0, bi_usermod = 0,
         bi_systemctl_start = 0, bi_command_v_aws = 0, bi_curl_awscli = 0, bi_unzip = 0,
         bi_aws_install = 0, bi_stop = 0, bi_rm = 0\<rparr>,
     stop = \<lparr>as_stop = 0, as_rm = 0\<rparr>,
     start = \<lparr>st_stop = 0, st_rm = 0, st_login = 0, st_pull = 0, st_run = 0,
         st_run_created = False, st_ps_grep = 0, st_logs = 0\<rparr>,
     validate = \<lparr>vs_ps_grep = 0, vs_ps_all_grep = 0, vs_inspect = 0,
         vs_status_out = ''running'' @ [newline], vs_logs_health = 0, vs_http = 0,
         vs_http_out = ''200'', vs_logs_http = 0, vs_body = ''ecommerce ok'' @ [newline],
         vs_logs_out = ''GET / HTTP/1.1 200'' @ [newline], vs_time = 0,
         vs_time_out = ''0.004512'', vs_final = 0\<rparr>\<rparr>"

text \<open>The service answers 200 with an empty page.\<close>

definition empty_body_env :: env where
  "empty_body_env = healthy_env\<lparr>validate := (validate healthy_env)\<lparr>vs_body := []\<rparr>\<rparr>"


text \<open>
  The registry does not know the image, so \<open>docker pull\<close> fails; the tag \<open>latest\<close>
  pulled by an earlier deployment is still in the local image store, so \<open>docker run\<close>
  starts a container from it.
\<close>

definition unknown_artifact_env :: env where
  "unknown_artifact_env = healthy_env\<lparr>start := (start healthy_env)\<lparr>st_pull := 1\<rparr>\<rparr>"

text \<open>The new container never shows up in \<open>docker ps\<close>.\<close>

definition never_running_env :: env where
  "never_running_env =
     healthy_env\<lparr>start := (start healthy_env)\<lparr>st_run := 125, st_ps_grep := 1\<rparr>\<rparr>"

text \<open>The container refuses to stop, and so cannot be removed.\<close>

definition stop_refused :: stop_env where
  "stop_refused = \<lparr>as_stop = 1, as_rm = 1\<rparr>"

text \<open>Every command of the ECR-checking application_start succeeds when the runtime lets it.\<close>

definition ecr_all_ok :: ecr_env where
  "ecr_all_ok =
    \<lparr>ec_region = 0, ec_region_out = ''us-east-1'', ec_sts = 0,
     ec_account_out = ''142595748980'' @ [newline], ec_describe = 0, ec_login = 0,
     ec_pull1 = 0, ec_run1 = 0, ec_run1_created = False, ec_pull2 = 0, ec_run2 = 0,
     ec_run2_created = False, ec_ps_grep = 0, ec_logs = 0\<rparr>"

text \<open>The second \<open>docker pull\<close> of the ECR-checking application_start fails.\<close>

definition ecr_second_pull_fails :: ecr_env where
  "ecr_second_pull_fails = ecr_all_ok\<lparr>ec_pull2 := 1\<rparr>"

text \<open>The ECR repository does not exist.\<close>

definition ecr_no_repository :: ecr_env where
  "ecr_no_repository = ecr_all_ok\<lparr>ec_describe := 254, ec_pull1 := 1, ec_pull2 := 1\<rparr>"

section \<open>Properties\<close>

declare show_nat.simps [simp del]

lemmas shell_defs =
  call_def echo_def sleep_def or_else_def true_cmd_def errexit_def ignore_def
  exit_with_def if_then_else_def if_test_def script_def negate_def
  docker_stop_def docker_rm_def docker_run_def

text \<open>
  Each comment-delimited block of a script gets one lemma saying what it leaves behind:
  the exit status if it exits, whether the container is there afterwards, and the
  container operations it ran. The scripts are then read off block by block.
\<close>

subsection \<open>Sequencing\<close>

lemma steps_append:
  "steps (a @ b) s = (case steps a s of Exit n s' \<Rightarrow> Exit n s' | Next s' \<Rightarrow> steps b s')"
  by (induction a arbitrary: s) (auto split: result.splits)

lemma status_of_append:
  "status_of (steps (a @ b) s) =
     (case status_of (steps a s) of Some n \<Rightarrow> Some n
      | None \<Rightarrow> status_of (steps b (state_of (steps a s))))"
  by (simp add: steps_append split: result.splits)

lemma state_of_append:
  "state_of (steps (a @ b) s) =
     (case status_of (steps a s) of Some n \<Rightarrow> state_of (steps a s)
      | None \<Rightarrow> state_of (steps b (state_of (steps a s))))"
  by (simp add: steps_append split: result.splits)

lemma fst_script:
  "fst (script body s) = (case status_of (steps body s) of None \<Rightarrow> 0 | Some n \<Rightarrow> n)"
  by (simp add: script_def split: result.splits)

lemma snd_script: "snd (script body s) = state_of (steps body s)"
  by (simp add: script_def split: result.splits)


lemma docker_ops_append: "docker_ops (xs @ ys) = docker_ops xs @ docker_ops ys"
  by (simp add: docker_ops_def)

lemma docker_ops_simps:
  "docker_ops [] = []"
  "docker_ops (Echo m # es) = docker_ops es"
  "docker_ops (Cmd c rc # es) = docker_op (Cmd c rc) @ docker_ops es"
  by (simp_all add: docker_ops_def)

lemmas block_simps = shell_defs docker_ops_append docker_ops_simps

subsection \<open>The shared blocks\<close>

lemma cleanup_existing_containers_effect:
  "status_of (steps (cleanup_existing_containers a b) s) = None"
  "present (state_of (steps (cleanup_existing_containers a b) s)) = (present s \<and> b \<noteq> 0)"
  "docker_ops (events (state_of (steps (cleanup_existing_containers a b) s))) =
     docker_ops (events s) @ [DockerStop, DockerRm]"
  by (simp_all add: cleanup_existing_containers_def block_simps)

lemma login_to_ecr_ignore:
  "status_of (steps (login_to_ecr ignore rc) s) = None"
  "present (state_of (steps (login_to_ecr ignore rc) s)) = present s"
  "docker_ops (events (state_of (steps (login_to_ecr ignore rc) s))) = docker_ops (events s)"
  by (simp_all add: login_to_ecr_def block_simps)

lemma login_to_ecr_errexit:
  "status_of (steps (login_to_ecr errexit rc) s) = (if rc = 0 then None else Some rc)"
  "present (state_of (steps (login_to_ecr errexit rc) s)) = present s"
  "docker_ops (events (state_of (steps (login_to_ecr errexit rc) s))) = docker_ops (events s)"
  by (simp_all add: login_to_ecr_def block_simps)

lemma pull_image_ignore:
  "status_of (steps (pull_image ignore img rc) s) = None"
  "present (state_of (steps (pull_image ignore img rc) s)) = present s"
  "docker_ops (events (state_of (steps (pull_image ignore img rc) s))) =
     docker_ops (events s) @ [DockerPull img]"
  by (simp_all add: pull_image_def block_simps)

lemma pull_image_errexit:
  "status_of (steps (pull_image errexit img rc) s) = (if rc = 0 then None else Some rc)"
  "present (state_of (steps (pull_image errexit img rc) s)) = present s"
  "docker_ops (events (state_of (steps (pull_image errexit img rc) s))) =
     docker_ops (events s) @ [DockerPull img]"
  by (simp_all add: pull_image_def block_simps)

lemma run_container_ignore:
  "status_of (steps (run_container ignore img rc cr) s) = None"
  "present (state_of (steps (run_container ignore img rc cr) s)) = (present s \<or> rc = 0 \<or> cr)"
  "docker_ops (events (state_of (steps (run_container ignore img rc cr) s))) =
     docker_ops (events s) @ [DockerRun img]"
  by (simp_all add: run_container_def block_simps)

lemma run_container_errexit:
  "status_of (steps (run_container errexit img rc cr) s) =
     (if present s then Some 125 else if rc = 0 then None else Some rc)"
  "present (state_of (steps (run_container errexit img rc cr) s)) = (present s \<or> rc = 0 \<or> cr)"
  "docker_ops (events (state_of (steps (run_container errexit img rc cr) s))) =
     docker_ops (events s) @ [DockerRun img]"
  by (simp_all add: run_container_def block_simps)

lemma verify_container_running_ignore:
  "status_of (steps (verify_container_running ignore ps lg) s) = (if ps = 0 then None else Some 1)"
  "present (state_of (steps (verify_container_running ignore ps lg) s)) = present s"
  "docker_ops (events (state_of (steps (verify_container_running ignore ps lg) s))) =
     docker_ops (events s) @ [DockerPsGrep]"
  by (simp_all add: verify_container_running_def block_simps)

lemma verify_container_running_errexit:
  "status_of (steps (verify_container_running errexit ps lg) s) =
     (if ps = 0 then None else if lg = 0 then Some 1 else Some lg)"
  "present (state_of (steps (verify_container_running errexit ps lg) s)) = present s"
  "docker_ops (events (state_of (steps (verify_container_running errexit ps lg) s))) =
     docker_ops (events s) @ [DockerPsGrep]"
  by (simp_all add: verify_container_running_def block_simps)

lemma echo_steps_ignore:
  "status_of (steps [ignore (echo m1)] s) = None"
  "present (state_of (steps [ignore (echo m1)] s)) = present s"
  "docker_ops (events (state_of (steps [ignore (echo m1)] s))) = docker_ops (events s)"
  "status_of (steps [ignore (echo m1), ignore (echo m2), ignore (echo m3)] s) = None"
  "present (state_of (steps [ignore (echo m1), ignore (echo m2), ignore (echo m3)] s)) = present s"
  "docker_ops (events (state_of (steps [ignore (echo m1), ignore (echo m2), ignore (echo m3)] s))) =
     docker_ops (events s)"
  by (simp_all add: block_simps)

lemma echo_steps_errexit:
  "status_of (steps [errexit (echo m1)] s) = None"
  "present (state_of (steps [errexit (echo m1)] s)) = present s"
  "docker_ops (events (state_of (steps [errexit (echo m1)] s))) = docker_ops (events s)"
  by (simp_all add: block_simps)

subsection \<open>before_install and application_stop\<close>

lemma install_docker_effect:
  "status_of (steps (install_docker e) s) = None"
  "present (state_of (steps (install_docker e) s)) = present s"
  "docker_ops (events (state_of (steps (install_docker e) s))) = docker_ops (events s)"
  by (simp_all add: install_docker_def block_simps)

lemma install_aws_cli_effect:
  "status_of (steps (install_aws_cli e) s) = None"
  "present (state_of (steps (install_aws_cli e) s)) = present s"
  "docker_ops (events (state_of (steps (install_aws_cli e) s))) = docker_ops (events s)"
  by (simp_all add: install_aws_cli_def block_simps)

lemmas sequencing = fst_script snd_script status_of_append state_of_append

lemma before_install_effect:
  "fst (before_install e s) = 0"
  "present (snd (before_install e s)) = (present s \<and> bi_rm e \<noteq> 0)"
  "docker_ops (events (snd (before_install e s))) = docker_ops (events s) @ [DockerStop, DockerRm]"
  unfolding before_install_def
  by ((simp add: sequencing echo_steps_ignore install_docker_effect install_aws_cli_effect
        cleanup_existing_containers_effect del: steps.simps append.simps; simp?)+)

lemma application_stop_effect:
  "fst (application_stop e s) = 0"
  "present (snd (application_stop e s)) = (present s \<and> as_rm e \<noteq> 0)"
  "docker_ops (events (snd (application_stop e s))) = docker_ops (events s) @ [DockerStop, DockerRm]"
  by (simp_all add: application_stop_def block_simps)

subsection \<open>application_start\<close>

lemma application_start_effect:
  "fst (application_start e s) = (if st_ps_grep e = 0 then 0 else 1)"
  "present (snd (application_start e s)) =
     ((present s \<and> st_rm e \<noteq> 0) \<or> st_run e = 0 \<or> st_run_created e)"
  "docker_ops (events (snd (application_start e s))) =
     docker_ops (events s) @
       [DockerStop, DockerRm, DockerPull hardcoded_image, DockerRun hardcoded_image, DockerPsGrep]"
  unfolding application_start_def
  by ((simp add: sequencing echo_steps_ignore cleanup_existing_containers_effect
        login_to_ecr_ignore pull_image_ignore run_container_ignore
        verify_container_running_ignore del: steps.simps append.simps; simp?)+)

subsection \<open>validate_service, block by block\<close>

lemma vs_header_status:
  "status_of (steps [ errexit (echo m1), errexit (echo m2), errexit (sleep n) ] s) = None"
  by (simp add: shell_defs)

lemma check_container_running_status:
  "status_of (steps (check_container_running e) s) = (if vs_ps_grep e = 0 then None else Some 1)"
  by (simp add: check_container_running_def shell_defs)

lemma check_container_health_status:
  "status_of (steps (check_container_health e) s) =
     (if vs_inspect e \<noteq> 0 then Some (vs_inspect e)
      else if CONTAINER_STATUS e = ''running'' then None
      else if vs_logs_health e \<noteq> 0 then Some (vs_logs_health e)
      else Some 1)"
  by (simp add: check_container_health_def shell_defs)

lemma test_http_response_status:
  "status_of (steps (test_http_response e) s) =
     (if HTTP_CODE e = ''200'' then None
      else if vs_logs_http e \<noteq> 0 then Some (vs_logs_http e)
      else Some 1)"
  by (simp add: test_http_response_def shell_defs)

lemma test_application_content_status:
  "status_of (steps (test_application_content e) s) =
     (if RESPONSE e \<noteq> [] then None else Some 1)"
  by (simp add: test_application_content_def shell_defs)

lemma check_logs_for_errors_status:
  "status_of (steps (check_logs_for_errors e) s) = None"
  by (simp add: check_logs_for_errors_def shell_defs)

lemma performance_check_status:
  "status_of (steps (performance_check e) s) =
     (if vs_time e = 0 then None else Some (vs_time e))"
  by (simp add: performance_check_def shell_defs)

lemma final_validation_status:
  "status_of (steps (final_validation e) s) = (if vs_final e = 0 then None else Some 1)"
  by (simp add: final_validation_def shell_defs)

lemma vs_footer_status: "status_of (steps [ errexit (echo m) ] s) = None"
  by (simp add: shell_defs)

lemmas validate_blocks =
  vs_header_status check_container_running_status check_container_health_status
  test_http_response_status test_application_content_status check_logs_for_errors_status
  performance_check_status final_validation_status vs_footer_status

lemma validate_service_status:
  "fst (validate_service e s) =
     (if vs_ps_grep e \<noteq> 0 then 1
      else if vs_inspect e \<noteq> 0 then vs_inspect e
      else if CONTAINER_STATUS e \<noteq> ''running''
        then (if vs_logs_health e \<noteq> 0 then vs_logs_health e else 1)
      else if HTTP_CODE e \<noteq> ''200''
        then (if vs_logs_http e \<noteq> 0 then vs_logs_http e else 1)
      else if RESPONSE e = [] then 1
      else if vs_time e \<noteq> 0 then vs_time e
      else if vs_final e \<noteq> 0 then 1
      else 0)"
  unfolding validate_service_def
  by (simp add: fst_script status_of_append validate_blocks del: steps.simps append.simps; simp?)

lemma validate_blocks_ops:
  "docker_ops (events (state_of (steps [errexit (echo m1), errexit (echo m2), errexit (sleep n)] s))) =
     docker_ops (events s)"
  "docker_ops (events (state_of (steps (check_container_running e) s))) =
     docker_ops (events s) @ [DockerPsGrep]"
  "docker_ops (events (state_of (steps (check_container_health e) s))) = docker_ops (events s)"
  "docker_ops (events (state_of (steps (test_http_response e) s))) = docker_ops (events s)"
  "docker_ops (events (state_of (steps (test_application_content e) s))) = docker_ops (events s)"
  "docker_ops (events (state_of (steps (check_logs_for_errors e) s))) = docker_ops (events s)"
  "docker_ops (events (state_of (steps (performance_check e) s))) = docker_ops (events s)"
  "docker_ops (events (state_of (steps (final_validation e) s))) = docker_ops (events s)"
  by (simp_all add: check_container_running_def check_container_health_def
        test_http_response_def test_application_content_def check_logs_for_errors_def
        performance_check_def final_validation_def block_simps)

lemma validate_service_ops:
  "docker_ops (events (snd (validate_service e s))) = docker_ops (events s) @ [DockerPsGrep]"
  unfolding validate_service_def
  by (simp add: sequencing validate_blocks validate_blocks_ops echo_steps_errexit
        del: steps.simps append.simps; simp?)

subsection \<open>The ECR-checking application_start\<close>

lemma get_region_and_account_effect:
  "status_of (steps (get_region_and_account e) s) = (if ec_sts e = 0 then None else Some (ec_sts e))"
  "present (state_of (steps (get_region_and_account e) s)) = present s"
  "docker_ops (events (state_of (steps (get_region_and_account e) s))) = docker_ops (events s)"
  by (simp_all add: get_region_and_account_def block_simps)

lemma check_ecr_repository_effect:
  "status_of (steps (check_ecr_repository e) s) = (if ec_describe e = 0 then None else Some 1)"
  "present (state_of (steps (check_ecr_repository e) s)) = present s"
  "docker_ops (events (state_of (steps (check_ecr_repository e) s))) = docker_ops (events s)"
  by (simp_all add: check_ecr_repository_def block_simps)

lemmas ecr_blocks = echo_steps_errexit get_region_and_account_effect check_ecr_repository_effect
  login_to_ecr_errexit pull_image_errexit run_container_errexit verify_container_running_errexit

lemma application_start_ecr_status:
  "fst (application_start_ecr e s) =
     (if ec_sts e \<noteq> 0 then ec_sts e
      else if ec_describe e \<noteq> 0 then 1
      else if ec_login e \<noteq> 0 then ec_login e
      else if ec_pull1 e \<noteq> 0 then ec_pull1 e
      else if present s then 125
      else if ec_run1 e \<noteq> 0 then ec_run1 e
      else if ec_pull2 e \<noteq> 0 then ec_pull2 e
      else 125)"
  unfolding application_start_ecr_def
  by (simp add: sequencing ecr_blocks del: steps.simps append.simps; simp?)

lemma application_start_ecr_present:
  "present (snd (application_start_ecr e s)) =
     (present s \<or>
      (ec_sts e = 0 \<and> ec_describe e = 0 \<and> ec_login e = 0 \<and> ec_pull1 e = 0 \<and>
       (ec_run1 e = 0 \<or> ec_run1_created e)))"
  unfolding application_start_ecr_def
  by (simp add: sequencing ecr_blocks del: steps.simps append.simps; auto?)

lemma application_start_ecr_ops:
  "docker_ops (events (snd (application_start_ecr e s))) = docker_ops (events s) @
     (if ec_sts e \<noteq> 0 \<or> ec_describe e \<noteq> 0 \<or> ec_login e \<noteq> 0 then []
      else if ec_pull1 e \<noteq> 0 then [DockerPull (ecr_image e)]
      else if present s \<or> ec_run1 e \<noteq> 0
        then [DockerPull (ecr_image e), DockerRun (ecr_image e)]
      else if ec_pull2 e \<noteq> 0
        then [DockerPull (ecr_image e), DockerRun (ecr_image e), DockerPull (ecr_image e)]
      else [DockerPull (ecr_image e), DockerRun (ecr_image e),
            DockerPull (ecr_image e), DockerRun (ecr_image e)])"
  unfolding application_start_ecr_def
  by (simp add: sequencing ecr_blocks del: steps.simps append.simps; simp?)

lemma application_start_ecr_never_succeeds: "fst (application_start_ecr e s) \<noteq> 0"
  by (simp add: application_start_ecr_status)

lemma application_start_ecr_fails_closed:
  assumes "ec_describe e \<noteq> 0 \<or> ec_pull1 e \<noteq> 0"
  shows "fst (application_start_ecr e s) \<noteq> 0
       \<and> DockerRun (ecr_image e) \<notin> set (drop (length (docker_ops (events s)))
                              (docker_ops (events (snd (application_start_ecr e s)))))"
  using assms by (auto simp add: application_start_ecr_status application_start_ecr_ops)

subsection \<open>One attempt\<close>

lemma validate_service_any_state:
  "fst (validate_service v s) = fst (validate_service v s')"
  by (simp only: validate_service_status)

lemma validate_service_after:
  "fst (validate_service v (snd (before_install a s))) = fst (validate_service v s)"
  "fst (validate_service v (snd (application_stop b s))) = fst (validate_service v s)"
  "fst (validate_service v (snd (application_start c s))) = fst (validate_service v s)"
  "fst (validate_service v (final (run_hooks e hs s))) = fst (validate_service v s)"
  by (rule validate_service_any_state)+

lemmas script_effects =
  before_install_effect application_stop_effect application_start_effect
  validate_service_ops validate_service_after

lemma first_pass:
  "ran (run_hooks e appspec_hooks s) =
     (if st_ps_grep (start e) = 0
      then [BeforeInstall, ApplicationStop, ApplicationStart, ValidateService]
      else [BeforeInstall, ApplicationStop, ApplicationStart])"
  "terminal (run_hooks e appspec_hooks s) =
     (if st_ps_grep (start e) = 0
      then (if fst (validate_service (validate e) s) = 0 then Succeeded
            else Failed ValidateService)
      else Failed ApplicationStart)"
  "docker_ops (events (final (run_hooks e appspec_hooks s))) = docker_ops (events s) @
     [DockerStop, DockerRm, DockerStop, DockerRm, DockerStop, DockerRm,
      DockerPull hardcoded_image, DockerRun hardcoded_image, DockerPsGrep] @
     (if st_ps_grep (start e) = 0 then [DockerPsGrep] else [])"
  by (simp_all add: appspec_hooks_def case_prod_beta Let_def script_effects)

lemma second_pass:
  "ran (run_hooks r rollback_hooks s) =
     (if st_ps_grep (start r) = 0
      then [ApplicationStop, ApplicationStart, ValidateService]
      else [ApplicationStop, ApplicationStart])"
  "terminal (run_hooks r rollback_hooks s) =
     (if st_ps_grep (start r) = 0
      then (if fst (validate_service (validate r) s) = 0 then Succeeded
            else Failed ValidateService)
      else Failed ApplicationStart)"
  "docker_ops (events (final (run_hooks r rollback_hooks s))) = docker_ops (events s) @
     [DockerStop, DockerRm, DockerStop, DockerRm,
      DockerPull hardcoded_image, DockerRun hardcoded_image, DockerPsGrep] @
     (if st_ps_grep (start r) = 0 then [DockerPsGrep] else [])"
  by (simp_all add: rollback_hooks_def case_prod_beta Let_def script_effects)

text \<open>The first pass completed: nothing follows it.\<close>

lemma deploy_succeeded:
  assumes "st_ps_grep (start e) = 0" and "fst (validate_service (validate e) s) = 0"
  shows "deploy e r previous s = run_hooks e appspec_hooks s"
    and "terminal (deploy e r previous s) = Succeeded"
  using assms by (simp_all add: deploy_def Let_def first_pass(2))

text \<open>The first pass failed and no previous reference is known: nothing follows it.\<close>

lemma deploy_failed:
  "deploy e r None s = run_hooks e appspec_hooks s"
  by (simp add: deploy_def Let_def)

text \<open>The first pass failed at Starting or Validating with a previous reference known.\<close>

lemma deploy_rolled_back:
  assumes "st_ps_grep (start e) \<noteq> 0 \<or> fst (validate_service (validate e) s) \<noteq> 0"
  shows "ran (deploy e r (Some ref) s) =
           ran (run_hooks e appspec_hooks s) @
           (if st_ps_grep (start r) = 0
            then [ApplicationStop, ApplicationStart, ValidateService]
            else [ApplicationStop, ApplicationStart])"
    and "terminal (deploy e r (Some ref) s) =
           (if st_ps_grep (start r) = 0
            then (if fst (validate_service (validate r) s) = 0 then RolledBack
                  else Failed ValidateService)
            else Failed ApplicationStart)"
    and "docker_ops (events (final (deploy e r (Some ref) s))) =
           docker_ops (events (final (run_hooks e appspec_hooks s))) @
           [DockerStop, DockerRm, DockerStop, DockerRm,
            DockerPull hardcoded_image, DockerRun hardcoded_image, DockerPsGrep] @
           (if st_ps_grep (start r) = 0 then [DockerPsGrep] else [])"
proof -
  from assms have failed: "terminal (run_hooks e appspec_hooks s) = Failed ApplicationStart
      \<or> terminal (run_hooks e appspec_hooks s) = Failed ValidateService"
    by (auto simp: first_pass(2))
  then have unfold: "deploy e r (Some ref) s =
      (let second_pass = run_hooks r rollback_hooks (final (run_hooks e appspec_hooks s))
       in \<lparr>ran = ran (run_hooks e appspec_hooks s) @ ran second_pass,
           terminal = (if terminal second_pass = Succeeded then RolledBack
                       else terminal second_pass),
           final = final second_pass\<rparr>)"
    by (simp add: deploy_def Let_def)
  show "ran (deploy e r (Some ref) s) =
           ran (run_hooks e appspec_hooks s) @
           (if st_ps_grep (start r) = 0
            then [ApplicationStop, ApplicationStart, ValidateService]
            else [ApplicationStop, ApplicationStart])"
    by (simp add: unfold Let_def second_pass(1))
  show "terminal (deploy e r (Some ref) s) =
           (if st_ps_grep (start r) = 0
            then (if fst (validate_service (validate r) s) = 0 then RolledBack
                  else Failed ValidateService)
            else Failed ApplicationStart)"
    by (simp add: unfold Let_def second_pass(2) validate_service_after)
  show "docker_ops (events (final (deploy e r (Some ref) s))) =
           docker_ops (events (final (run_hooks e appspec_hooks s))) @
           [DockerStop, DockerRm, DockerStop, DockerRm,
            DockerPull hardcoded_image, DockerRun hardcoded_image, DockerPsGrep] @
           (if st_ps_grep (start r) = 0 then [DockerPsGrep] else [])"
    by (simp add: unfold Let_def second_pass(3))
qed

text \<open>Whatever happens, the attempt begins with the first pass and is never Succeeded
  unless that pass completed.\<close>

lemma deploy_begins:
  "take 3 (ran (deploy e r previous s)) = [BeforeInstall, ApplicationStop, ApplicationStart]"
proof (cases previous)
  case None
  then show ?thesis by (simp add: deploy_failed first_pass(1))
next
  case (Some ref)
  show ?thesis
  proof (cases "st_ps_grep (start e) = 0 \<and> fst (validate_service (validate e) s) = 0")
    case True
    then show ?thesis by (simp add: deploy_succeeded(1) first_pass(1))
  next
    case False
    then have "st_ps_grep (start e) \<noteq> 0 \<or> fst (validate_service (validate e) s) \<noteq> 0"
      by simp
    from deploy_rolled_back(1) [OF this] Some show ?thesis
      by (simp add: first_pass(1))
  qed
qed

lemma deploy_terminal:
  "terminal (deploy e r previous s) =
     (if st_ps_grep (start e) = 0 \<and> fst (validate_service (validate e) s) = 0 then Succeeded
      else if previous = None
        then (if st_ps_grep (start e) = 0 then Failed ValidateService
              else Failed ApplicationStart)
      else if st_ps_grep (start r) = 0
        then (if fst (validate_service (validate r) s) = 0 then RolledBack
              else Failed ValidateService)
      else Failed ApplicationStart)"
proof (cases "st_ps_grep (start e) = 0 \<and> fst (validate_service (validate e) s) = 0")
  case True
  then show ?thesis by (simp add: deploy_succeeded(2))
next
  case False
  then have failed: "st_ps_grep (start e) \<noteq> 0 \<or> fst (validate_service (validate e) s) \<noteq> 0"
    by simp
  show ?thesis
  proof (cases previous)
    case None
    with False show ?thesis by (auto simp: deploy_failed first_pass(2))
  next
    case (Some ref)
    from deploy_rolled_back(2) [OF failed, of r ref] Some False show ?thesis
      by simp
  qed
qed

lemma deploy_terminal_succeeded:
  "terminal (deploy e r previous s) = Succeeded \<longleftrightarrow>
     st_ps_grep (start e) = 0 \<and> fst (validate_service (validate e) s) = 0"
proof (cases "st_ps_grep (start e) = 0 \<and> fst (validate_service (validate e) s) = 0")
  case True
  then show ?thesis by (simp add: deploy_succeeded(2))
next
  case False
  then have failed: "st_ps_grep (start e) \<noteq> 0 \<or> fst (validate_service (validate e) s) \<noteq> 0"
    by simp
  show ?thesis
  proof (cases previous)
    case None
    with False show ?thesis by (auto simp: deploy_failed first_pass(2))
  next
    case (Some ref)
    from deploy_rolled_back(2) [OF failed, of r ref] Some False show ?thesis
      by (auto split: if_splits)
  qed
qed

subsection \<open>Text of the probes\<close>

lemma command_subst_Nil: "command_subst [] = []"
  by (simp add: command_subst_def)

lemma RESPONSE_nonempty:
  assumes "RESPONSE e \<noteq> []"
  shows "vs_body e \<noteq> [] \<and> list_ex (matches_i content_markers) (lines_of (vs_body e))"
proof -
  from assms have ne: "grep_i content_markers (vs_body e) \<noteq> []"
    by (auto simp: RESPONSE_def head_1_def command_subst_Nil split: list.splits)
  then obtain l where "l \<in> set (lines_of (vs_body e))" "matches_i content_markers l"
    by (auto simp: grep_i_def filter_empty_conv)
  then have "list_ex (matches_i content_markers) (lines_of (vs_body e))"
    by (auto simp: list_ex_iff)
  moreover from ne have "vs_body e \<noteq> []"
    by (auto simp: grep_i_def)
  ultimately show ?thesis by simp
qed

lemma RESPONSE_empty_body: "vs_body e = [] \<Longrightarrow> RESPONSE e = []"
  by (simp add: RESPONSE_def grep_i_def head_1_def command_subst_Nil)

lemma HTTP_CODE_200:
  assumes "HTTP_CODE e = ''200''"
  shows "vs_http e = 0 \<and> command_subst (vs_http_out e) = ''200''"
proof (cases "vs_http e = 0")
  case True
  with assms show ?thesis by (simp add: HTTP_CODE_def)
next
  case False
  with assms have "command_subst (vs_http_out e @ ''000'' @ [newline]) = ''200''"
    by (simp add: HTTP_CODE_def)
  then have "rev (command_subst (vs_http_out e @ ''000'' @ [newline])) = rev ''200''"
    by simp
  then show ?thesis
    by (simp add: command_subst_def newline_def)
qed

subsection \<open>The concrete environments\<close>

lemma healthy_fields:
  "vs_ps_grep (validate healthy_env) = 0" "vs_inspect (validate healthy_env) = 0"
  "vs_time (validate healthy_env) = 0" "vs_final (validate healthy_env) = 0"
  "st_ps_grep (start healthy_env) = 0"
  by (simp_all add: healthy_env_def)

lemma healthy_signals:
  "CONTAINER_STATUS (validate healthy_env) = ''running''"
  "HTTP_CODE (validate healthy_env) = ''200''"
  "RESPONSE (validate healthy_env) = ''ecommerce ok''"
  by code_simp+

lemma healthy_validates: "fst (validate_service (validate healthy_env) s) = 0"
  by (simp add: validate_service_status healthy_fields healthy_signals)

lemma no_ops_yet:
  "docker_ops (events fresh_host) = []" "docker_ops (events host_with_container) = []"
  by (simp_all add: fresh_host_def host_with_container_def docker_ops_def)

section \<open>The claims\<close>

text \<open>
  C1 (the code departs from the claim): with an image reference the registry does not
  know, \<open>docker pull\<close> fails, yet the hardcoded application_start, which has no
  \<open>set -e\<close>, goes on to \<open>docker run\<close>; when the local image store still holds the tag,
  the container starts, the script exits 0 and the attempt ends Succeeded. The
  ECR-checking application_start, on a missing repository, exits 1 before any pull or run.
\<close>

theorem unknown_artifact_still_launches:
  "st_pull (start unknown_artifact_env) = 1
   \<and> events (snd (application_start (start unknown_artifact_env) fresh_host)) =
       [Echo ''Starting application_start phase...'',
        Echo ''Using AWS Region: us-east-1'',
        Echo ''Using AWS Account ID: 142595748980'',
        Echo ''Cleaning up existing containers...'',
        Cmd DockerStop 1,
        Cmd DockerRm 1,
        Echo ''Logging in to ECR...'',
        Cmd EcrLogin 0,
        Echo ''Pulling Docker image from ECR...'',
        Cmd (DockerPull hardcoded_image) 1,
        Echo ''Starting Docker container...'',
        Cmd (DockerRun hardcoded_image) 0,
        Echo ''Waiting for container to start...'',
        Cmd (Sleep 10) 0,
        Cmd DockerPsGrep 0,
        Echo ''Container started successfully'',
        Echo ''Application start phase completed successfully'']
   \<and> fst (application_start (start unknown_artifact_env) fresh_host) = 0
   \<and> present (snd (application_start (start unknown_artifact_env) fresh_host))
   \<and> terminal (deploy unknown_artifact_env r previous host_with_container) = Succeeded
   \<and> fst (application_start_ecr ecr_no_repository fresh_host) = 1
   \<and> docker_ops (events (snd (application_start_ecr ecr_no_repository fresh_host))) = []"
proof -
  have fields: "st_pull (start unknown_artifact_env) = 1"
      "st_ps_grep (start unknown_artifact_env) = 0" "st_run (start unknown_artifact_env) = 0"
      "validate unknown_artifact_env = validate healthy_env"
    by (simp_all add: unknown_artifact_env_def healthy_env_def)
  have trace: "events (snd (application_start (start unknown_artifact_env) fresh_host)) =
       [Echo ''Starting application_start phase...'',
        Echo ''Using AWS Region: us-east-1'',
        Echo ''Using AWS Account ID: 142595748980'',
        Echo ''Cleaning up existing containers...'',
        Cmd DockerStop 1,
        Cmd DockerRm 1,
        Echo ''Logging in to ECR...'',
        Cmd EcrLogin 0,
        Echo ''Pulling Docker image from ECR...'',
        Cmd (DockerPull hardcoded_image) 1,
        Echo ''Starting Docker container...'',
        Cmd (DockerRun hardcoded_image) 0,
        Echo ''Waiting for container to start...'',
        Cmd (Sleep 10) 0,
        Cmd DockerPsGrep 0,
        Echo ''Container started successfully'',
        Echo ''Application start phase completed successfully'']"
    by (simp add: application_start_def cleanup_existing_containers_def login_to_ecr_def
          pull_image_def run_container_def verify_container_running_def shell_defs
          unknown_artifact_env_def healthy_env_def fresh_host_def)
  have sibling: "ec_sts ecr_no_repository = 0" "ec_describe ecr_no_repository = 254"
    by (simp_all add: ecr_no_repository_def ecr_all_ok_def)
  show ?thesis
    using fields trace sibling
    by (simp add: application_start_effect deploy_terminal_succeeded healthy_validates
          application_start_ecr_status application_start_ecr_ops no_ops_yet)
qed

text \<open>
  C2, as stated, fails: the new container never shows up in \<open>docker ps\<close>, and the
  previous artifact reference \<open>repo/app:v1\<close> is known. The attempt re-enters once and
  ends RolledBack, but the re-entry pulls and runs the fixed reference of the script
  again, not the previous one.
\<close>

theorem rollback_pulls_the_fixed_reference:
  "st_ps_grep (start never_running_env) = 1
   \<and> terminal (deploy never_running_env healthy_env (Some ''repo/app:v1'') host_with_container)
       = RolledBack
   \<and> docker_ops (events (final
         (deploy never_running_env healthy_env (Some ''repo/app:v1'') host_with_container))) =
       [DockerStop, DockerRm, DockerStop, DockerRm, DockerStop, DockerRm,
        DockerPull hardcoded_image, DockerRun hardcoded_image, DockerPsGrep,
        DockerStop, DockerRm, DockerStop, DockerRm,
        DockerPull hardcoded_image, DockerRun hardcoded_image, DockerPsGrep, DockerPsGrep]
   \<and> hardcoded_image = ''142595748980.dkr.ecr.us-east-1.amazonaws.com/ecommerce-app:latest''
   \<and> hardcoded_image \<noteq> ''repo/app:v1''"
proof -
  have failed: "st_ps_grep (start never_running_env) = 1"
      "st_ps_grep (start never_running_env) \<noteq> 0
       \<or> fst (validate_service (validate never_running_env) host_with_container) \<noteq> 0"
    by (simp_all add: never_running_env_def healthy_env_def)
  have image: "hardcoded_image = ''142595748980.dkr.ecr.us-east-1.amazonaws.com/ecommerce-app:latest''"
      "hardcoded_image \<noteq> ''repo/app:v1''"
    by (simp_all add: hardcoded_image_def image_reference_def)
  have rolled: "terminal (deploy never_running_env healthy_env (Some ''repo/app:v1'')
                   host_with_container) = RolledBack"
      "docker_ops (events (final
         (deploy never_running_env healthy_env (Some ''repo/app:v1'') host_with_container))) =
       [DockerStop, DockerRm, DockerStop, DockerRm, DockerStop, DockerRm,
        DockerPull hardcoded_image, DockerRun hardcoded_image, DockerPsGrep,
        DockerStop, DockerRm, DockerStop, DockerRm,
        DockerPull hardcoded_image, DockerRun hardcoded_image, DockerPsGrep, DockerPsGrep]"
    using failed(1) deploy_rolled_back [OF failed(2), of healthy_env "''repo/app:v1''"]
    by (simp_all add: first_pass healthy_fields healthy_validates no_ops_yet)
  from failed(1) rolled image show ?thesis
    by (simp only: simp_thms)
qed

text \<open>
  C2, amended: if application_start does not see the container in \<open>docker ps\<close> after
  its wait and a previous artifact reference is known, the attempt performs exactly one
  rollback re-entry of application_stop, application_start (Installing and Starting)
  and validate_service, and then ends RolledBack or Failed; no attempt runs
  application_start more than twice. The re-entry does not use the previous reference:
  both passes pull and run the fixed reference of the script.
\<close>

theorem failed_start_rolls_back_once:
  assumes "st_ps_grep (start e) \<noteq> 0"
  shows "fst (application_start (start e) s') = 1
       \<and> ran (deploy e r (Some ref) s) =
           [BeforeInstall, ApplicationStop, ApplicationStart] @
           (if st_ps_grep (start r) = 0
            then [ApplicationStop, ApplicationStart, ValidateService]
            else [ApplicationStop, ApplicationStart])
       \<and> terminal (deploy e r (Some ref) s) =
           (if st_ps_grep (start r) = 0
            then (if fst (validate_service (validate r) s) = 0 then RolledBack
                  else Failed ValidateService)
            else Failed ApplicationStart)
       \<and> docker_ops (events (final (deploy e r (Some ref) s))) = docker_ops (events s) @
           [DockerStop, DockerRm, DockerStop, DockerRm, DockerStop, DockerRm,
            DockerPull hardcoded_image, DockerRun hardcoded_image, DockerPsGrep] @
           [DockerStop, DockerRm, DockerStop, DockerRm,
            DockerPull hardcoded_image, DockerRun hardcoded_image, DockerPsGrep] @
           (if st_ps_grep (start r) = 0 then [DockerPsGrep] else [])
       \<and> length (filter (\<lambda>h. h = ApplicationStart) (ran (deploy e' r' previous' s''))) \<le> 2"
proof -
  from assms have failed:
      "st_ps_grep (start e) \<noteq> 0 \<or> fst (validate_service (validate e) s) \<noteq> 0"
    by simp
  have twice: "length (filter (\<lambda>h. h = ApplicationStart) (ran (deploy e' r' previous' s''))) \<le> 2"
  proof (cases previous')
    case None
    then show ?thesis by (simp add: deploy_failed first_pass(1))
  next
    case (Some ref')
    show ?thesis
    proof (cases "st_ps_grep (start e') = 0 \<and> fst (validate_service (validate e') s'') = 0")
      case True
      then show ?thesis by (simp add: deploy_succeeded(1) first_pass(1))
    next
      case False
      then have "st_ps_grep (start e') \<noteq> 0 \<or> fst (validate_service (validate e') s'') \<noteq> 0"
        by simp
      from deploy_rolled_back(1) [OF this] Some show ?thesis
        by (simp add: first_pass(1))
    qed
  qed
  from assms deploy_rolled_back [OF failed, of r ref] twice show ?thesis
    by (simp add: application_start_effect first_pass)
qed

theorem failed_start_rolls_back_once_witness:
  "st_ps_grep (start never_running_env) \<noteq> 0
   \<and> fst (application_start (start never_running_env) host_with_container) = 1
   \<and> ran (deploy never_running_env healthy_env (Some ''repo/app:v1'') host_with_container) =
       [BeforeInstall, ApplicationStop, ApplicationStart,
        ApplicationStop, ApplicationStart, ValidateService]
   \<and> terminal (deploy never_running_env healthy_env (Some ''repo/app:v1'') host_with_container)
       = RolledBack"
proof -
  have h: "st_ps_grep (start never_running_env) \<noteq> 0"
    by (simp add: never_running_env_def healthy_env_def)
  from failed_start_rolls_back_once
         [OF h, of host_with_container healthy_env "''repo/app:v1''" host_with_container] h
  show ?thesis
    by (simp add: healthy_fields healthy_validates)
qed

text \<open>
  C3: validate_service reports success only if the three health signals hold: the
  container is listed by \<open>docker ps\<close> and its inspected state is \<open>running\<close>, the
  HTTP probe succeeds with code 200, and the page is non-empty and has a line with one
  of the markers. When the page is empty the script exits nonzero and the attempt does
  not end Succeeded, whatever the process state and the HTTP code.
\<close>

theorem validate_service_needs_three_signals:
  "(fst (validate_service e s) = 0 \<longrightarrow>
      vs_ps_grep e = 0 \<and> vs_inspect e = 0 \<and> CONTAINER_STATUS e = ''running''
      \<and> vs_http e = 0 \<and> HTTP_CODE e = ''200''
      \<and> vs_body e \<noteq> [] \<and> list_ex (matches_i content_markers) (lines_of (vs_body e)))
   \<and> (vs_body e = [] \<longrightarrow> fst (validate_service e s) \<noteq> 0)
   \<and> (vs_body (validate E) = [] \<longrightarrow> terminal (deploy E R previous s) \<noteq> Succeeded)"
proof (intro conjI impI)
  assume ok: "fst (validate_service e s) = 0"
  then have sig: "vs_ps_grep e = 0" "vs_inspect e = 0" "CONTAINER_STATUS e = ''running''"
      "HTTP_CODE e = ''200''" "RESPONSE e \<noteq> []"
    by (simp_all add: validate_service_status split: if_splits)
  from sig show "vs_ps_grep e = 0" "vs_inspect e = 0" "CONTAINER_STATUS e = ''running''"
      "HTTP_CODE e = ''200''"
    by simp_all
  from sig(4) show "vs_http e = 0" by (simp add: HTTP_CODE_200)
  from sig(5) show "vs_body e \<noteq> []"
      "list_ex (matches_i content_markers) (lines_of (vs_body e))"
    by (simp_all add: RESPONSE_nonempty)
next
  assume "vs_body e = []"
  then show "fst (validate_service e s) \<noteq> 0"
    by (simp add: validate_service_status RESPONSE_empty_body)
next
  assume "vs_body (validate E) = []"
  then have "fst (validate_service (validate E) s) \<noteq> 0"
    by (simp add: validate_service_status RESPONSE_empty_body)
  then show "terminal (deploy E R previous s) \<noteq> Succeeded"
    by (simp add: deploy_terminal_succeeded)
qed

theorem validate_service_needs_three_signals_witness:
  "fst (validate_service (validate healthy_env) fresh_host) = 0
   \<and> CONTAINER_STATUS (validate healthy_env) = ''running''
   \<and> HTTP_CODE (validate healthy_env) = ''200''
   \<and> list_ex (matches_i content_markers) (lines_of (vs_body (validate healthy_env)))
   \<and> vs_ps_grep (validate empty_body_env) = 0
   \<and> CONTAINER_STATUS (validate empty_body_env) = ''running''
   \<and> HTTP_CODE (validate empty_body_env) = ''200''
   \<and> vs_body (validate empty_body_env) = []
   \<and> fst (validate_service (validate empty_body_env) fresh_host) \<noteq> 0
   \<and> terminal (deploy empty_body_env healthy_env None fresh_host) \<noteq> Succeeded
   \<and> terminal (deploy empty_body_env healthy_env (Some ''repo/app:v1'') fresh_host) \<noteq> Succeeded"
proof -
  have ok: "fst (validate_service (validate healthy_env) fresh_host) = 0"
    by code_simp
  have empty: "vs_body (validate empty_body_env) = []"
    by (simp add: empty_body_env_def)
  have signals: "vs_ps_grep (validate empty_body_env) = 0"
      "CONTAINER_STATUS (validate empty_body_env) = ''running''"
      "HTTP_CODE (validate empty_body_env) = ''200''"
    by code_simp+
  show ?thesis
    using validate_service_needs_three_signals
            [of "validate healthy_env" fresh_host empty_body_env healthy_env None]
          validate_service_needs_three_signals
            [of "validate empty_body_env" fresh_host empty_body_env healthy_env
                "Some ''repo/app:v1''"]
          ok empty signals
    by simp
qed



text \<open>
  C5, as stated, fails: when the container refuses to stop, application_stop runs
  \<open>docker stop\<close> once, prints the fallback message, goes on to \<open>docker rm\<close> and exits
  0; there is no second \<open>docker stop\<close> and no failure.
\<close>

theorem refused_stop_is_not_retried:
  "events (snd (application_stop stop_refused host_with_container)) =
     [Echo ''Starting application_stop phase...'',
      Echo ''Stopping Docker container...'',
      Cmd DockerStop 1,
      Echo ''Container was not running'',
      Echo ''Removing Docker container...'',
      Cmd DockerRm 1,
      Echo ''Container was already removed'',
      Echo ''Application stop phase completed successfully'']
   \<and> fst (application_stop stop_refused host_with_container) = 0
   \<and> present (snd (application_stop stop_refused host_with_container))"
  by (simp add: application_stop_def shell_defs stop_refused_def host_with_container_def)

text \<open>
  C5, amended: application_stop never retries: whatever \<open>docker stop\<close> and
  \<open>docker rm\<close> answer, each is invoked exactly once, in this order, and the script
  exits 0, so the Stopping phase does not end Failed, on the first stop failure or later.
\<close>

theorem application_stop_single_attempt:
  "docker_ops (events (snd (application_stop e s))) = docker_ops (events s) @ [DockerStop, DockerRm]
   \<and> fst (application_stop e s) = 0"
  by (simp add: application_stop_effect)

text \<open>
  C6: on a host with no container named \<open>ecommerce-app\<close>, before_install and
  application_stop both exit 0 (the failing \<open>docker stop\<close> and \<open>docker rm\<close> are
  swallowed), the container stays absent, and the attempt goes on to application_start.
\<close>

theorem absent_container_phases_succeed:
  assumes "\<not> present s"
  shows "fst (before_install (install e) s) = 0
       \<and> \<not> present (snd (before_install (install e) s))
       \<and> fst (application_stop (stop e) (snd (before_install (install e) s))) = 0
       \<and> \<not> present (snd (application_stop (stop e) (snd (before_install (install e) s))))
       \<and> fst (application_stop (stop e) s) = 0
       \<and> take 3 (ran (deploy e r previous s)) = [BeforeInstall, ApplicationStop, ApplicationStart]"
  using assms
  by (simp add: before_install_effect application_stop_effect deploy_begins)

theorem absent_container_phases_succeed_witness:
  "\<not> present fresh_host
   \<and> fst (before_install (install healthy_env) fresh_host) = 0
   \<and> fst (application_stop (stop healthy_env)
            (snd (before_install (install healthy_env) fresh_host))) = 0
   \<and> take 3 (ran (deploy healthy_env healthy_env None fresh_host)) =
       [BeforeInstall, ApplicationStop, ApplicationStart]"
proof -
  have h: "\<not> present fresh_host"
    by (simp add: fresh_host_def)
  from absent_container_phases_succeed [OF h, of healthy_env healthy_env None] h
  show ?thesis by simp
qed

text \<open>
  C7, as stated, fails twice over. On a fresh host application_start itself runs
  \<open>docker stop\<close> and \<open>docker rm\<close> before it pulls and runs. And an attempt whose
  Starting fails with no previous reference known ends there: validate_service is not
  among its phases.
\<close>

theorem application_start_repeats_cleanup:
  "take 6 (events (snd (application_start (start healthy_env) fresh_host))) =
     [Echo ''Starting application_start phase...'',
      Echo ''Using AWS Region: us-east-1'',
      Echo ''Using AWS Account ID: 142595748980'',
      Echo ''Cleaning up existing containers...'',
      Cmd DockerStop 1,
      Cmd DockerRm 1]
   \<and> docker_ops (events (snd (application_start (start healthy_env) fresh_host))) =
       [DockerStop, DockerRm, DockerPull hardcoded_image, DockerRun hardcoded_image,
        DockerPsGrep]
   \<and> ran (deploy never_running_env healthy_env None host_with_container) =
       [BeforeInstall, ApplicationStop, ApplicationStart]
   \<and> terminal (deploy never_running_env healthy_env None host_with_container) =
       Failed ApplicationStart"
proof -
  have trace: "take 6 (events (snd (application_start (start healthy_env) fresh_host))) =
     [Echo ''Starting application_start phase...'',
      Echo ''Using AWS Region: us-east-1'',
      Echo ''Using AWS Account ID: 142595748980'',
      Echo ''Cleaning up existing containers...'',
      Cmd DockerStop 1,
      Cmd DockerRm 1]"
    by (simp add: application_start_def cleanup_existing_containers_def login_to_ecr_def
          pull_image_def run_container_def verify_container_running_def shell_defs
          healthy_env_def fresh_host_def)
  have failed: "st_ps_grep (start never_running_env) = 1"
    by (simp add: never_running_env_def healthy_env_def)
  from trace failed show ?thesis
    by (simp add: application_start_effect no_ops_yet deploy_failed first_pass)
qed

text \<open>
  C7, amended: in every attempt the executed phases follow the fixed sequence
  before_install, application_stop, application_start (Installing and Starting),
  validate_service in that order, up to the phase that fails, plus at most one rollback
  repetition of application_stop through validate_service, likewise up to the phase
  that fails; no phase is skipped, reordered, or repeated otherwise. The
  stop-and-remove actions, however, are not confined to the Stopping phase:
  application_start itself runs \<open>docker stop\<close> and \<open>docker rm\<close> before it pulls and
  runs, and so does before_install.
\<close>

theorem phases_in_order_cleanup_repeated:
  "ran (deploy e r previous s) =
     (if st_ps_grep (start e) = 0
      then [BeforeInstall, ApplicationStop, ApplicationStart, ValidateService]
      else [BeforeInstall, ApplicationStop, ApplicationStart]) @
     (if st_ps_grep (start e) = 0 \<and> fst (validate_service (validate e) s) = 0 then []
      else if previous = None then []
      else if st_ps_grep (start r) = 0
        then [ApplicationStop, ApplicationStart, ValidateService]
      else [ApplicationStop, ApplicationStart])
   \<and> docker_ops (events (snd (application_start (start e) s'))) = docker_ops (events s') @
       [DockerStop, DockerRm, DockerPull hardcoded_image, DockerRun hardcoded_image,
        DockerPsGrep]
   \<and> docker_ops (events (snd (before_install (install e) s'))) =
       docker_ops (events s') @ [DockerStop, DockerRm]"
proof -
  have order: "ran (deploy e r previous s) =
     (if st_ps_grep (start e) = 0
      then [BeforeInstall, ApplicationStop, ApplicationStart, ValidateService]
      else [BeforeInstall, ApplicationStop, ApplicationStart]) @
     (if st_ps_grep (start e) = 0 \<and> fst (validate_service (validate e) s) = 0 then []
      else if previous = None then []
      else if st_ps_grep (start r) = 0
        then [ApplicationStop, ApplicationStart, ValidateService]
      else [ApplicationStop, ApplicationStart])"
  proof (cases "st_ps_grep (start e) = 0 \<and> fst (validate_service (validate e) s) = 0")
    case True
    then show ?thesis by (simp add: deploy_succeeded(1) first_pass(1))
  next
    case False
    then have failed:
        "st_ps_grep (start e) \<noteq> 0 \<or> fst (validate_service (validate e) s) \<noteq> 0"
      by simp
    show ?thesis
    proof (cases previous)
      case None
      with False show ?thesis by (simp add: deploy_failed first_pass(1))
    next
      case (Some ref)
      from deploy_rolled_back(1) [OF failed, of r ref] Some False show ?thesis
        by (simp add: first_pass(1))
    qed
  qed
  then show ?thesis
    by (simp add: application_start_effect before_install_effect)
qed

text \<open>
  C8, as stated, fails in two places. When the first \<open>docker run\<close> has created the
  container and the second \<open>docker pull\<close> fails, the script exits with the status of
  that pull and the second \<open>docker run\<close> never runs, so no name conflict occurs. And
  the script reports failure on other executions too: when the ECR repository does not
  exist it exits 1 with no container launched.
\<close>

theorem second_pull_failure_skips_second_run:
  "ec_run1 ecr_second_pull_fails = 0
   \<and> docker_ops (events (snd (application_start_ecr ecr_second_pull_fails fresh_host))) =
       [DockerPull (ecr_image ecr_second_pull_fails), DockerRun (ecr_image ecr_second_pull_fails),
        DockerPull (ecr_image ecr_second_pull_fails)]
   \<and> present (snd (application_start_ecr ecr_second_pull_fails fresh_host))
   \<and> fst (application_start_ecr ecr_second_pull_fails fresh_host) = 1
   \<and> fst (application_start_ecr ecr_no_repository fresh_host) = 1
   \<and> \<not> present (snd (application_start_ecr ecr_no_repository fresh_host))
   \<and> docker_ops (events (snd (application_start_ecr ecr_no_repository fresh_host))) = []"
proof -
  have fields: "ec_sts ecr_second_pull_fails = 0" "ec_describe ecr_second_pull_fails = 0"
      "ec_login ecr_second_pull_fails = 0" "ec_pull1 ecr_second_pull_fails = 0"
      "ec_run1 ecr_second_pull_fails = 0" "ec_pull2 ecr_second_pull_fails = 1"
      "ec_sts ecr_no_repository = 0" "ec_describe ecr_no_repository = 254"
      "\<not> present fresh_host"
    by (simp_all add: ecr_second_pull_fails_def ecr_no_repository_def ecr_all_ok_def
          fresh_host_def)
  then show ?thesis
    by (simp add: application_start_ecr_status application_start_ecr_present
          application_start_ecr_ops no_ops_yet)
qed

text \<open>
  C8, amended: in the ECR-checking application_start, whenever the first \<open>docker run\<close>
  is reached on a host without the container and succeeds, the script exits nonzero
  with the container in place and without reaching its \<open>docker ps\<close> check: when the
  second pull succeeds, the second \<open>docker run\<close> finds the name taken and fails with
  status 125, which \<open>set -e\<close> turns into the exit status; when the second pull fails,
  the script exits with that status before the second run. So the script reports
  failure on every execution where the container launched, and on every other
  execution as well: it never exits 0.
\<close>

theorem duplicated_run_fails_after_launch:
  assumes "ec_sts e = 0" and "ec_describe e = 0" and "ec_login e = 0" and "ec_pull1 e = 0"
    and "\<not> present s" and "ec_run1 e = 0"
  shows "fst (application_start_ecr e s) \<noteq> 0
       \<and> fst (application_start_ecr e s) = (if ec_pull2 e = 0 then 125 else ec_pull2 e)
       \<and> present (snd (application_start_ecr e s))
       \<and> docker_ops (events (snd (application_start_ecr e s))) = docker_ops (events s) @
           (if ec_pull2 e = 0
            then [DockerPull (ecr_image e), DockerRun (ecr_image e),
                  DockerPull (ecr_image e), DockerRun (ecr_image e)]
            else [DockerPull (ecr_image e), DockerRun (ecr_image e),
                  DockerPull (ecr_image e)])
       \<and> fst (application_start_ecr e' s') \<noteq> 0"
  using assms
  by (simp add: application_start_ecr_status application_start_ecr_present
        application_start_ecr_ops)

theorem duplicated_run_fails_after_launch_witness:
  "\<not> present fresh_host \<and> ec_run1 ecr_all_ok = 0
   \<and> fst (application_start_ecr ecr_all_ok fresh_host) = 125
   \<and> present (snd (application_start_ecr ecr_all_ok fresh_host))
   \<and> docker_ops (events (snd (application_start_ecr ecr_all_ok fresh_host))) =
       [DockerPull (ecr_image ecr_all_ok), DockerRun (ecr_image ecr_all_ok),
        DockerPull (ecr_image ecr_all_ok), DockerRun (ecr_image ecr_all_ok)]"
proof -
  have h: "ec_sts ecr_all_ok = 0" "ec_describe ecr_all_ok = 0" "ec_login ecr_all_ok = 0"
      "ec_pull1 ecr_all_ok = 0" "\<not> present fresh_host" "ec_run1 ecr_all_ok = 0"
      "ec_pull2 ecr_all_ok = 0" "docker_ops (events fresh_host) = []"
    by (simp_all add: ecr_all_ok_def fresh_host_def docker_ops_def)
  from duplicated_run_fails_after_launch [OF h(1-6)] h
  show ?thesis by simp
qed

text \<open>
  C9: the application_stop script exits with status 0 for every outcome of the
  underlying runtime calls: a failing \<open>docker stop\<close> or \<open>docker rm\<close> is swallowed
  by its fallback echo, so despite \<open>set -e\<close> the Stopping phase never produces a
  nonzero exit, whatever the runtime state it starts in.
\<close>

theorem application_stop_always_zero:
  "fst (application_stop e s) = 0"
  by (simp add: application_stop_def shell_defs)

text \<open>
  C10: the scan of the container log for error, fail or exception has no effect on the
  outcome of validate_service: the block that scans the log never exits, whatever the
  count, and the exit status of the script, and the outcome of the attempt, are the same
  for every log text.
\<close>

theorem validation_ignores_log_scan:
  "status_of (steps (check_logs_for_errors e) s) = None
   \<and> fst (validate_service (e\<lparr>vs_logs_out := t\<rparr>) s) = fst (validate_service e s)
   \<and> terminal (deploy (E\<lparr>validate := (validate E)\<lparr>vs_logs_out := t\<rparr>\<rparr>) R previous s)
       = terminal (deploy E R previous s)"
proof -
  have same: "CONTAINER_STATUS (e'\<lparr>vs_logs_out := t\<rparr>) = CONTAINER_STATUS e'"
      "HTTP_CODE (e'\<lparr>vs_logs_out := t\<rparr>) = HTTP_CODE e'"
      "RESPONSE (e'\<lparr>vs_logs_out := t\<rparr>) = RESPONSE e'" for e'
    by (simp_all add: CONTAINER_STATUS_def HTTP_CODE_def RESPONSE_def)
  have status: "fst (validate_service (e'\<lparr>vs_logs_out := t\<rparr>) s) = fst (validate_service e' s)" for e'
    by (simp add: validate_service_status same split del: if_split cong: if_cong)
  have attempt: "terminal (deploy (E\<lparr>validate := (validate E)\<lparr>vs_logs_out := t\<rparr>\<rparr>) R previous s)
       = terminal (deploy E R previous s)"
    by (simp add: deploy_terminal status split del: if_split cong: if_cong)
  show ?thesis
    using status attempt by (simp add: check_logs_for_errors_status)
qed

end
